theory Spec2Isabelle
  imports Main "HOL-Library.Word" "HOL-Library.Sublist"
begin

section \<open>The chat front end: chat-frontend/app.tsx\<close>

text \<open>
  The component \<^verbatim>\<open>App\<close> keeps three pieces of React state (the conversation, the input
  buffer and the loading flag), one asynchronous handler \<^verbatim>\<open>handleSend\<close> and a render
  function. The handler is embedded by explicit state passing: every \<^verbatim>\<open>setX\<close> call is
  an update of the state record, every \<^verbatim>\<open>await\<close> is a case distinction on how the awaited
  promise settles, and the \<^verbatim>\<open>fetch\<close> calls it issues are returned as a log. The scroll
  requests (\<^verbatim>\<open>setTimeout\<close> with \<^verbatim>\<open>scrollTo\<close>) touch the viewport only and are left
  out.
\<close>

subsection \<open>Strings and bytes of the platform\<close>

text \<open>
  A JavaScript string is a sequence of 16-bit code units; a chunk read from a response
  body is a \<^verbatim>\<open>Uint8Array\<close>.
\<close>

type_synonym js_string = "16 word list"
type_synonym bytes = "8 word list"

text \<open>The code units of a string literal of the source (all of them are ASCII).\<close>

definition utf16 :: "string \<Rightarrow> js_string" where
  "utf16 cs = map (\<lambda>c. of_nat (of_char c)) cs"

text \<open>
  \<^verbatim>\<open>String.prototype.trim\<close> strips the code units of ECMAScript's WhiteSpace and
  LineTerminator productions from both ends: TAB, VT, FF, ZWNBSP, the space separators
  (category Zs) and LF, CR, LS, PS.
\<close>

definition isWhiteSpace :: "16 word \<Rightarrow> bool" where
  "isWhiteSpace c \<longleftrightarrow>
     c = 0x0009 \<or> c = 0x000B \<or> c = 0x000C \<or> c = 0xFEFF \<or>
     c = 0x0020 \<or> c = 0x00A0 \<or> c = 0x1680 \<or> (0x2000 \<le> c \<and> c \<le> 0x200A) \<or>
     c = 0x202F \<or> c = 0x205F \<or> c = 0x3000 \<or>
     c = 0x000A \<or> c = 0x000D \<or> c = 0x2028 \<or> c = 0x2029"

definition trim :: "js_string \<Rightarrow> js_string" where
  "trim s = rev (dropWhile isWhiteSpace (rev (dropWhile isWhiteSpace s)))"

subsection \<open>Data model\<close>

datatype MessageType = USER | SYSTEM

record Message =
  msg_type :: MessageType
  msg_text :: js_string

text \<open>The three \<^verbatim>\<open>useState\<close> cells of the component.\<close>

record app_state =
  messages :: "Message list"
  input :: js_string
  loading :: bool

definition initial_state :: app_state where
  "initial_state = \<lparr>messages = [], input = [], loading = False\<rparr>"

definition setMessages :: "(Message list \<Rightarrow> Message list) \<Rightarrow> app_state \<Rightarrow> app_state" where
  "setMessages f s = s\<lparr>messages := f (messages s)\<rparr>"

definition setInput :: "js_string \<Rightarrow> app_state \<Rightarrow> app_state" where
  "setInput v s = s\<lparr>input := v\<rparr>"

definition setLoading :: "bool \<Rightarrow> app_state \<Rightarrow> app_state" where
  "setLoading b s = s\<lparr>loading := b\<rparr>"

subsection \<open>The network as the handler sees it\<close>

text \<open>
  An awaited promise is fulfilled with a value, rejected, or never settles (the source
  sets no timeout).
\<close>

datatype 'a awaited = Fulfils 'a | Rejects | Pends

text \<open>
  One result of \<^verbatim>\<open>reader.read()\<close>: the fields \<^verbatim>\<open>value\<close> (a chunk, or
  \<^verbatim>\<open>undefined\<close>) and \<^verbatim>\<open>done\<close>.
\<close>

record read_result =
  read_value :: "bytes option"
  read_done :: bool

text \<open>
  A response: its status and its body, \<^verbatim>\<open>null\<close> or a stream. The stream is the list
  of the outcomes of the successive reads; a read past the end of the list never settles.
\<close>

record response =
  status :: int
  body :: "read_result awaited list option"

text \<open>
  The request of lines 36--40. The body \<^verbatim>\<open>JSON.stringify({ prompt: input })\<close> is kept
  as the prompt it encodes.
\<close>

record request =
  url :: string
  http_method :: string
  content_type :: string
  prompt :: js_string

text \<open>
  What the handler takes from its environment: the configured backend base URL, the
  backend behind \<^verbatim>\<open>fetch\<close>, and \<^verbatim>\<open>TextDecoder.decode\<close>, which is called without the
  \<^verbatim>\<open>stream\<close> option and so decodes every chunk on its own.
\<close>

record platform =
  VITE_CHAT_BACKEND :: string
  fetch :: "request \<Rightarrow> response awaited"
  decode :: "bytes \<Rightarrow> js_string"

text \<open>
  How a call of the asynchronous handler ends, with the state it leaves: its promise is
  fulfilled, an awaited promise rejected (nothing catches it), or an awaited promise never
  settles.
\<close>

datatype outcome = Finished app_state | Threw app_state | Stuck app_state

fun final :: "outcome \<Rightarrow> app_state" where
  "final (Finished s) = s"
| "final (Threw s) = s"
| "final (Stuck s) = s"

subsection \<open>The updaters passed to \<^verbatim>\<open>setMessages\<close>\<close>

text \<open>Line 26.\<close>

definition user_update :: "js_string \<Rightarrow> Message list \<Rightarrow> Message list" where
  "user_update inp msgs = msgs @ [\<lparr>msg_type = USER, msg_text = inp\<rparr>]"

definition failure_text :: js_string where
  "failure_text = utf16 ''Something went wrong. Please try later.''"

text \<open>Lines 43--49.\<close>

definition failure_update :: "Message list \<Rightarrow> Message list" where
  "failure_update msgs = msgs @ [\<lparr>msg_type = SYSTEM, msg_text = failure_text\<rparr>]"

text \<open>
  Lines 60--69. \<^verbatim>\<open>msgs[msgs.length - 1]\<close> is \<^verbatim>\<open>undefined\<close> on the empty list, and
  \<^verbatim>\<open>msgs.slice(0, -1)\<close> drops the last element.
\<close>

definition stream_update :: "js_string \<Rightarrow> Message list \<Rightarrow> Message list" where
  "stream_update resp msgs =
     (if msgs \<noteq> [] \<and> msg_type (last msgs) = SYSTEM
      then butlast msgs @ [\<lparr>msg_type = SYSTEM, msg_text = resp\<rparr>]
      else msgs @ [\<lparr>msg_type = SYSTEM, msg_text = resp\<rparr>])"

subsection \<open>The handler \<^verbatim>\<open>handleSend\<close>\<close>

text \<open>
  The read loop of lines 53--78, entered with \<^verbatim>\<open>done = false\<close>, so that there is at
  least one read. Each round awaits a read, handles its value and then leaves the loop
  when the read said \<^verbatim>\<open>done\<close>. A chunk is an object and so is truthy whatever its
  length: \<^verbatim>\<open>if (value)\<close> tests that a value is there. The arguments are the decoder,
  the reads to come, the variable \<^verbatim>\<open>response\<close> and the state.
\<close>

fun read_loop ::
  "(bytes \<Rightarrow> js_string) \<Rightarrow> read_result awaited list \<Rightarrow> js_string \<Rightarrow> app_state \<Rightarrow> outcome"
where
  "read_loop dec [] resp s = Stuck s"
| "read_loop dec (Pends # rs) resp s = Stuck s"
| "read_loop dec (Rejects # rs) resp s = Threw s"
| "read_loop dec (Fulfils r # rs) resp s =
     (case read_value r of
        None \<Rightarrow> if read_done r then Finished s else read_loop dec rs resp s
      | Some v \<Rightarrow>
          if read_done r then Finished (setMessages (stream_update (resp @ dec v)) s)
          else read_loop dec rs (resp @ dec v) (setMessages (stream_update (resp @ dec v)) s))"

definition chat_request :: "platform \<Rightarrow> js_string \<Rightarrow> request" where
  "chat_request p inp =
     \<lparr>url = VITE_CHAT_BACKEND p @ ''/chat'', http_method = ''POST'',
      content_type = ''application/json'', prompt = inp\<rparr>"

text \<open>
  Lines 42--79. The test \<^verbatim>\<open>res.status != 200 || !res.body\<close> is written as a case
  distinction on the body, so that the read loop gets the stream: the failure branch is
  taken when there is no body or the status is not 200, and the read loop is started
  with an empty response otherwise.
\<close>

definition handle_response :: "platform \<Rightarrow> response \<Rightarrow> app_state \<Rightarrow> outcome" where
  "handle_response p res s =
     (case body res of
        None \<Rightarrow> Finished (setMessages failure_update s)
      | Some rs \<Rightarrow>
          if status res \<noteq> 200 then Finished (setMessages failure_update s)
          else read_loop (decode p) rs [] s)"

text \<open>Lines 81--82, reached only when nothing before them threw or hangs.\<close>

fun finish :: "outcome \<Rightarrow> outcome" where
  "finish (Finished s) = Finished (setInput [] (setLoading False s))"
| "finish (Threw s) = Threw s"
| "finish (Stuck s) = Stuck s"

text \<open>Lines 25--26.\<close>

definition send_start :: "app_state \<Rightarrow> app_state" where
  "send_start s = setMessages (user_update (input s)) (setLoading True s)"

text \<open>
  The handler: the requests it issues and how it ends. The empty string is the only falsy
  string, so \<^verbatim>\<open>!input.trim()\<close> holds when the trimmed input is empty.
\<close>

definition handleSend :: "platform \<Rightarrow> app_state \<Rightarrow> request list \<times> outcome" where
  "handleSend p s =
     (if trim (input s) = [] then ([], Finished s)
      else
        ([chat_request p (input s)],
         case fetch p (chat_request p (input s)) of
           Fulfils res \<Rightarrow> finish (handle_response p res (send_start s))
         | Rejects \<Rightarrow> Threw (send_start s)
         | Pends \<Rightarrow> Stuck (send_start s)))"

text \<open>A stream that keeps the contract of \<^verbatim>\<open>read()\<close>: the chunks, then the end.\<close>

definition stream_of :: "bytes list \<Rightarrow> read_result awaited list" where
  "stream_of chunks =
     map (\<lambda>c. Fulfils \<lparr>read_value = Some c, read_done = False\<rparr>) chunks
       @ [Fulfils \<lparr>read_value = None, read_done = True\<rparr>]"

subsection \<open>The rendered tree\<close>

text \<open>
  The JSX returned by \<^verbatim>\<open>App\<close> (lines 85--152) as a tree of elements. An element has the
  name of its tag or component, its attributes and its children. The handlers of the
  controls are given below; the \<^verbatim>\<open>ref\<close> of the chat area serves the scrolling only.
  \<^verbatim>\<open>ReactMarkdown\<close> is the component that turns markdown source into visual elements; its
  child, the source, is the argument of the constructor.
\<close>

datatype attr =
  ClassName string | Key nat | Value js_string | Placeholder string | Disabled bool
| Src string | Alt string

datatype node = Element string "attr list" "node list" | Text string | ReactMarkdown js_string

definition header :: node where
  "header =
     Element ''div'' [ClassName ''flex justify-center py-4'']
       [Element ''h3'' [ClassName ''text-xl font-semibold'']
          [Text ''Computer Gross AI Assistant'']]"

definition welcome_panel :: node where
  "welcome_panel =
     Element ''div'' [ClassName ''flex h-full'']
       [Element ''div'' [ClassName ''self-center mx-auto text-center w-1/2'']
          [Element ''h1''
             [ClassName ''bg-linear-to-r from-blue-600 from-30% to-70% to-pink-500 bg-clip-text text-6xl font-extrabold text-transparent mb-2'']
             [Text ''Ciao!''],
           Element ''p'' [ClassName ''text-neutral-500'']
             [Text ''Hai intenzione di iniziare un persorso di formazione su tecnologie Microsoft?'',
              Element ''br'' [] [],
              Text '' Sono qui per aiutarti.'']]]"

text \<open>Lines 106--122: the block of the message at index \<open>i\<close>.\<close>

definition message_block :: "nat \<Rightarrow> Message \<Rightarrow> node" where
  "message_block i msg =
     Element ''div''
       [Key i,
        ClassName (if msg_type msg = USER
                   then ''self-end bg-slate-200 px-4 py-2 rounded-xl rounded-tr-sm max-w-2/3''
                   else ''self-start max-w-5/6'')]
       [Element ''div'' [ClassName ''flex space-x-2 items-start'']
          ((if msg_type msg = SYSTEM
            then [Element ''SparkleIcon'' [ClassName ''w-4 shrink-0 text-blue-500 fill-blue-500''] []]
            else [])
           @ [Element ''div'' [ClassName ''whitespace-pre-wrap''] [ReactMarkdown (msg_text msg)]])]"

definition chat_area :: "Message list \<Rightarrow> node" where
  "chat_area msgs =
     Element ''div'' [ClassName ''flex-1 overflow-y-auto py-4'']
       [if msgs = [] then welcome_panel
        else Element ''div'' [ClassName ''flex flex-col gap-6 w-1/2 mx-auto'']
               (map (\<lambda>(i, msg). message_block i msg) (enumerate 0 msgs))]"

text \<open>Lines 127--142: the text field and the send button.\<close>

definition controls :: "app_state \<Rightarrow> node" where
  "controls s =
     Element ''div'' [ClassName ''flex gap-2 w-1/2 mx-auto'']
       [Element ''Input''
          [Value (input s),
           Placeholder (''Chiedi all'' @ [CHR 0x27] @ ''assistente virtuale di Computer Gross''),
           Disabled (loading s)]
          [],
        Element ''Button'' [Disabled (loading s \<or> trim (input s) = [])]
          [if loading s then Element ''LoaderCircle'' [ClassName ''w-4 animate-spin''] []
           else Element ''SendHorizonal'' [ClassName ''w-4''] []]]"

definition footer :: node where
  "footer =
     Element ''div'' [ClassName ''flex justify-center items-center gap-2 py-4 w-1/2 mx-auto'']
       [Element ''img'' [Src ''/computer-gross-logo.svg'', Alt ''Computer Gross'', ClassName ''h-4''] [],
        Element ''img'' [Src ''/microsoft-logo.svg'', Alt ''Microsoft'', ClassName ''h-4''] []]"

definition App :: "app_state \<Rightarrow> node" where
  "App s =
     Element ''div'' [ClassName ''flex flex-col h-screen'']
       [header, chat_area (messages s), controls s, footer]"

text \<open>Reading a rendered tree: the sources handed to the markdown component, in order.\<close>

fun markdown_sources :: "node \<Rightarrow> js_string list" where
  "markdown_sources (Element tag as cs) = concat (map markdown_sources cs)"
| "markdown_sources (Text t) = []"
| "markdown_sources (ReactMarkdown t) = [t]"

text \<open>The literal texts of a tree.\<close>

fun literal_texts :: "node \<Rightarrow> string list" where
  "literal_texts (Element tag as cs) = concat (map literal_texts cs)"
| "literal_texts (Text t) = [t]"
| "literal_texts (ReactMarkdown t) = []"

text \<open>The attributes of the elements that directly hold a markdown component.\<close>

fun is_markdown :: "node \<Rightarrow> bool" where
  "is_markdown (ReactMarkdown t) = True"
| "is_markdown (Element tag as cs) = False"
| "is_markdown (Text t) = False"

fun markdown_holders :: "node \<Rightarrow> attr list list" where
  "markdown_holders (Element tag as cs) =
     map (\<lambda>c. as) (filter is_markdown cs) @ concat (map markdown_holders cs)"
| "markdown_holders (Text t) = []"
| "markdown_holders (ReactMarkdown t) = []"

text \<open>The \<^verbatim>\<open>disabled\<close> flags of the elements of a given name.\<close>

fun disabled_attr :: "attr \<Rightarrow> bool list" where
  "disabled_attr (Disabled b) = [b]"
| "disabled_attr (ClassName c) = []"
| "disabled_attr (Key k) = []"
| "disabled_attr (Value v) = []"
| "disabled_attr (Placeholder t) = []"
| "disabled_attr (Src u) = []"
| "disabled_attr (Alt t) = []"

fun disabled_flags :: "string \<Rightarrow> node \<Rightarrow> bool list" where
  "disabled_flags n (Element tag as cs) =
     (if tag = n then concat (map disabled_attr as) else [])
       @ concat (map (disabled_flags n) cs)"
| "disabled_flags n (Text t) = []"
| "disabled_flags n (ReactMarkdown t) = []"

subsection \<open>The handlers of the controls\<close>

text \<open>Line 130.\<close>

definition onChange :: "js_string \<Rightarrow> app_state \<Rightarrow> app_state" where
  "onChange v s = setInput v s"

text \<open>Line 131.\<close>

definition onKeyDown :: "platform \<Rightarrow> string \<Rightarrow> app_state \<Rightarrow> request list \<times> outcome" where
  "onKeyDown p key s = (if key = ''Enter'' then handleSend p s else ([], Finished s))"

text \<open>Line 135.\<close>

definition onClick :: "platform \<Rightarrow> app_state \<Rightarrow> request list \<times> outcome" where
  "onClick p s = handleSend p s"

datatype ui_event = Type_text js_string | Press_key string | Click_button

definition is_disabled :: "string \<Rightarrow> app_state \<Rightarrow> bool" where
  "is_disabled name s \<longleftrightarrow> True \<in> set (disabled_flags name (App s))"

text \<open>
  Modelled from the spec: the components \<^verbatim>\<open>Input\<close> and \<^verbatim>\<open>Button\<close>
  (\<^verbatim>\<open>./components/ui/input\<close>, \<^verbatim>\<open>./components/ui/button\<close>) are not among the sources.
  By section 4.3 of the specification the field and the send affordance act only while
  enabled: a disabled control delivers no event to its handler.
\<close>

definition deliver :: "platform \<Rightarrow> ui_event \<Rightarrow> app_state \<Rightarrow> request list \<times> outcome" where
  "deliver p ev s =
     (case ev of
        Type_text v \<Rightarrow>
          if is_disabled ''Input'' s then ([], Finished s) else ([], Finished (onChange v s))
      | Press_key key \<Rightarrow>
          if is_disabled ''Input'' s then ([], Finished s) else onKeyDown p key s
      | Click_button \<Rightarrow>
          if is_disabled ''Button'' s then ([], Finished s) else onClick p s)"

subsection \<open>Sample inputs\<close>

text \<open>The bytes of an ASCII text, as a chunk.\<close>

definition ascii :: "string \<Rightarrow> bytes" where
  "ascii cs = map (\<lambda>c. of_nat (of_char c)) cs"

text \<open>
  A backend that answers every request with the given response, with a decoder that is
  right on ASCII.
\<close>

definition backend :: "response \<Rightarrow> platform" where
  "backend res =
     \<lparr>VITE_CHAT_BACKEND = ''http://backend'', fetch = (\<lambda>req. Fulfils res), decode = map ucast\<rparr>"

definition hello :: app_state where
  "hello = \<lparr>messages = [], input = utf16 ''Hello'', loading = False\<rparr>"

section \<open>Properties\<close>

subsection \<open>Trimming\<close>

lemma all_dropWhile: "(\<forall>x \<in> set (dropWhile P xs). P x) \<longleftrightarrow> (\<forall>x \<in> set xs. P x)"
  by (induction xs) auto

lemma trim_empty_iff: "trim s = [] \<longleftrightarrow> (\<forall>c \<in> set s. isWhiteSpace c)"
  by (simp add: trim_def all_dropWhile)

subsection \<open>The conversation under the updaters\<close>

lemma stream_update_twice: "stream_update r2 (stream_update r1 msgs) = stream_update r2 msgs"
  by (simp add: stream_update_def)

lemma stream_update_after_user:
  "stream_update r (msgs @ [\<lparr>msg_type = USER, msg_text = t\<rparr>]) =
     msgs @ [\<lparr>msg_type = USER, msg_text = t\<rparr>, \<lparr>msg_type = SYSTEM, msg_text = r\<rparr>]"
  by (simp add: stream_update_def)

lemma read_loop_shape:
  "messages (final (read_loop dec rs resp s)) = messages s \<or>
   (\<exists>t. messages (final (read_loop dec rs resp s)) = stream_update t (messages s))"
proof (induction rs arbitrary: resp s)
  case Nil
  show ?case by simp
next
  case (Cons a rs)
  show ?case
  proof (cases a)
    case (Fulfils r)
    show ?thesis
    proof (cases "read_value r")
      case None
      with Fulfils Cons.IH [of resp s] show ?thesis by simp
    next
      case (Some v)
      let ?s1 = "setMessages (stream_update (resp @ dec v)) s"
      have m1: "messages ?s1 = stream_update (resp @ dec v) (messages s)"
        by (simp add: setMessages_def)
      from Cons.IH [of "resp @ dec v" ?s1] Fulfils Some m1 show ?thesis
        by (auto simp: stream_update_twice)
    qed
  qed simp_all
qed

lemma messages_finish: "messages (final (finish out)) = messages (final out)"
  by (cases out) (simp_all add: setInput_def setLoading_def)

lemma finish_Finished: "finish out = Finished s' \<Longrightarrow> \<not> loading s' \<and> input s' = []"
  by (cases out) (auto simp: setInput_def setLoading_def)

lemma messages_send_start:
  "messages (send_start s) = messages s @ [\<lparr>msg_type = USER, msg_text = input s\<rparr>]"
  by (simp add: send_start_def setMessages_def setLoading_def user_update_def)

text \<open>What the handling of a response adds after the user's message: at most one SYSTEM message.\<close>

lemma handle_response_adds:
  assumes "messages s1 = msgs @ [\<lparr>msg_type = USER, msg_text = t\<rparr>]"
  shows "\<exists>rest. messages (final (handle_response p res s1)) = messages s1 @ rest \<and>
           length rest \<le> 1 \<and> (\<forall>m \<in> set rest. msg_type m = SYSTEM)"
proof (cases "body res = None \<or> status res \<noteq> 200")
  case True
  then have "messages (final (handle_response p res s1)) =
      messages s1 @ [\<lparr>msg_type = SYSTEM, msg_text = failure_text\<rparr>]"
    by (auto simp: handle_response_def setMessages_def failure_update_def split: option.splits)
  then show ?thesis by simp
next
  case False
  then obtain rs where rs: "body res = Some rs" and ok: "status res = 200" by auto
  then have h: "handle_response p res s1 = read_loop (decode p) rs [] s1"
    by (simp add: handle_response_def)
  from read_loop_shape [of "decode p" rs "[]" s1]
  show ?thesis
  proof
    assume "messages (final (read_loop (decode p) rs [] s1)) = messages s1"
    with h show ?thesis by simp
  next
    assume "\<exists>t. messages (final (read_loop (decode p) rs [] s1)) = stream_update t (messages s1)"
    then obtain r where "messages (final (read_loop (decode p) rs [] s1)) = stream_update r (messages s1)"
      by blast
    with h assms have "messages (final (handle_response p res s1)) =
        messages s1 @ [\<lparr>msg_type = SYSTEM, msg_text = r\<rparr>]"
      by (simp add: stream_update_after_user)
    then show ?thesis by simp
  qed
qed

lemma handleSend_adds:
  assumes "trim (input s) \<noteq> []"
  shows "\<exists>rest. messages (final (snd (handleSend p s))) = messages (send_start s) @ rest \<and>
           length rest \<le> 1 \<and> (\<forall>m \<in> set rest. msg_type m = SYSTEM)"
proof (cases "fetch p (chat_request p (input s))")
  case (Fulfils res)
  with assms have "messages (final (snd (handleSend p s))) =
      messages (final (handle_response p res (send_start s)))"
    by (simp add: handleSend_def messages_finish)
  with handle_response_adds [OF messages_send_start, of p res s] show ?thesis by simp
next
  case Rejects
  with assms show ?thesis by (simp add: handleSend_def)
next
  case Pends
  with assms show ?thesis by (simp add: handleSend_def)
qed

subsection \<open>The read loop\<close>

lemma setMessages_stream_twice:
  "setMessages (stream_update r2) (setMessages (stream_update r1) s) =
     setMessages (stream_update r2) s"
  by (simp add: setMessages_def stream_update_twice)

lemma stream_of_Nil: "stream_of [] = [Fulfils \<lparr>read_value = None, read_done = True\<rparr>]"
  by (simp add: stream_of_def)

lemma stream_of_Cons:
  "stream_of (c # cs) = Fulfils \<lparr>read_value = Some c, read_done = False\<rparr> # stream_of cs"
  by (simp add: stream_of_def)

text \<open>
  On a stream that delivers its chunks and then ends, the loop finishes; when there was a
  chunk, the conversation has gone through one update with the whole text.
\<close>

lemma read_loop_stream_of:
  "read_loop dec (stream_of chunks) resp s =
     Finished (if chunks = [] then s
               else setMessages (stream_update (resp @ concat (map dec chunks))) s)"
proof (induction chunks arbitrary: resp s)
  case Nil
  show ?case by (simp add: stream_of_Nil)
next
  case (Cons c cs)
  show ?case
    by (simp add: stream_of_Cons Cons.IH setMessages_stream_twice)
qed

subsection \<open>Blank input\<close>

text \<open>
  C4. When the input is empty or consists of whitespace only, \<^verbatim>\<open>handleSend\<close> returns
  at once: the state (conversation, loading flag and input buffer) is the one it was
  called in, and no request is issued.
\<close>

theorem C4_blank_input_noop:
  assumes "\<forall>c \<in> set (input s). isWhiteSpace c"
  shows "handleSend p s = ([], Finished s)"
  using assms by (simp add: handleSend_def trim_empty_iff)

theorem C4_blank_input_noop_witness:
  "handleSend \<lparr>VITE_CHAT_BACKEND = ''http://backend'', fetch = (\<lambda>r. Rejects), decode = map ucast\<rparr>
     \<lparr>messages = [\<lparr>msg_type = USER, msg_text = utf16 ''Hello''\<rparr>],
      input = utf16 ''   '', loading = False\<rparr>
   = ([], Finished \<lparr>messages = [\<lparr>msg_type = USER, msg_text = utf16 ''Hello''\<rparr>],
                    input = utf16 ''   '', loading = False\<rparr>)"
  by (rule C4_blank_input_noop) (simp add: utf16_def isWhiteSpace_def)

subsection \<open>A streamed answer\<close>

text \<open>
  C1. A send with a non-blank input that is answered with status 200 and a body whose
  stream delivers the chunks \<open>C1..Cn\<close>, \<open>n \<ge> 1\<close>, and then ends, finishes with the
  conversation extended by the user's message and exactly one SYSTEM message, the last
  one, whose text is the concatenation of the decoded chunks.
\<close>

theorem C1_streamed_text:
  assumes "trim (input s) \<noteq> []"
    and "fetch p (chat_request p (input s)) = Fulfils res"
    and "status res = 200"
    and "body res = Some (stream_of chunks)"
    and "chunks \<noteq> []"
  shows "handleSend p s =
    ([chat_request p (input s)],
     Finished \<lparr>messages = messages s @
                  [\<lparr>msg_type = USER, msg_text = input s\<rparr>,
                   \<lparr>msg_type = SYSTEM, msg_text = concat (map (decode p) chunks)\<rparr>],
               input = [], loading = False\<rparr>)"
  using assms
  by (simp add: handleSend_def handle_response_def read_loop_stream_of send_start_def
      setMessages_def setLoading_def setInput_def user_update_def stream_update_after_user)

theorem C1_streamed_text_witness:
  "handleSend
     (backend \<lparr>status = 200,
               body = Some (stream_of [ascii ''Hi'', ascii '' there'', ascii ''!''])\<rparr>)
     hello =
    ([\<lparr>url = ''http://backend/chat'', http_method = ''POST'',
       content_type = ''application/json'', prompt = utf16 ''Hello''\<rparr>],
     Finished \<lparr>messages = [\<lparr>msg_type = USER, msg_text = utf16 ''Hello''\<rparr>,
                            \<lparr>msg_type = SYSTEM, msg_text = utf16 ''Hi there!''\<rparr>],
               input = [], loading = False\<rparr>)"
proof -
  let ?res = "\<lparr>status = 200,
               body = Some (stream_of [ascii ''Hi'', ascii '' there'', ascii ''!''])\<rparr>"
  have a: "trim (input hello) \<noteq> []"
    by (simp add: hello_def trim_def utf16_def isWhiteSpace_def)
  have b: "fetch (backend ?res) (chat_request (backend ?res) (input hello)) = Fulfils ?res"
    by (simp add: backend_def)
  have c: "status ?res = 200" by simp
  have d: "body ?res = Some (stream_of [ascii ''Hi'', ascii '' there'', ascii ''!''])" by simp
  have e: "[ascii ''Hi'', ascii '' there'', ascii ''!''] \<noteq> []" by simp
  show ?thesis
    using C1_streamed_text [OF a b c d e]
    by (simp add: backend_def hello_def chat_request_def utf16_def ascii_def)
qed

subsection \<open>A failed request\<close>

text \<open>
  C2. A send with a non-blank input whose response has a status other than 200, or no
  body, finishes with the conversation extended by the user's message and exactly one
  SYSTEM message with the text "Something went wrong. Please try later."; nothing of the
  body is shown before it.
\<close>

theorem C2_failure_message:
  assumes "trim (input s) \<noteq> []"
    and "fetch p (chat_request p (input s)) = Fulfils res"
    and "status res \<noteq> 200 \<or> body res = None"
  shows "handleSend p s =
    ([chat_request p (input s)],
     Finished \<lparr>messages = messages s @
                  [\<lparr>msg_type = USER, msg_text = input s\<rparr>,
                   \<lparr>msg_type = SYSTEM,
                    msg_text = utf16 ''Something went wrong. Please try later.''\<rparr>],
               input = [], loading = False\<rparr>)"
  using assms
  by (auto simp: handleSend_def handle_response_def send_start_def failure_update_def
      failure_text_def setMessages_def setLoading_def setInput_def user_update_def
      split: option.splits)

theorem C2_failure_message_witness:
  "handleSend
     (backend \<lparr>status = 500, body = Some (stream_of [ascii ''Internal Server Error''])\<rparr>)
     hello =
    ([\<lparr>url = ''http://backend/chat'', http_method = ''POST'',
       content_type = ''application/json'', prompt = utf16 ''Hello''\<rparr>],
     Finished \<lparr>messages = [\<lparr>msg_type = USER, msg_text = utf16 ''Hello''\<rparr>,
                            \<lparr>msg_type = SYSTEM,
                             msg_text = utf16 ''Something went wrong. Please try later.''\<rparr>],
               input = [], loading = False\<rparr>)"
proof -
  let ?res = "\<lparr>status = 500, body = Some (stream_of [ascii ''Internal Server Error''])\<rparr>"
  have a: "trim (input hello) \<noteq> []"
    by (simp add: hello_def trim_def utf16_def isWhiteSpace_def)
  have b: "fetch (backend ?res) (chat_request (backend ?res) (input hello)) = Fulfils ?res"
    by (simp add: backend_def)
  have c: "status ?res \<noteq> 200 \<or> body ?res = None" by simp
  show ?thesis
    using C2_failure_message [OF a b c]
    by (simp add: backend_def hello_def chat_request_def)
qed

subsection \<open>The user's message\<close>

text \<open>
  C5. A send with a non-blank input, while not loading, appends exactly one USER message
  whose text is the input as it stands, untrimmed, before the response is handled: the
  handling starts from the conversation that ends with this message, and whatever the
  backend does (also while the stream is still being read, or when it breaks) it adds
  after it at most one message, a SYSTEM one.
\<close>

theorem C5_user_message_first:
  assumes "trim (input s) \<noteq> []" and "\<not> loading s"
  shows "messages (send_start s) = messages s @ [\<lparr>msg_type = USER, msg_text = input s\<rparr>] \<and>
         (\<exists>rest. messages (final (snd (handleSend p s))) = messages (send_start s) @ rest \<and>
            length rest \<le> 1 \<and> (\<forall>m \<in> set rest. msg_type m = SYSTEM))"
  using handleSend_adds [OF assms(1)] by (simp add: messages_send_start)

theorem C5_user_message_first_witness:
  "trim (input \<lparr>messages = [], input = utf16 '' Hello '', loading = False\<rparr>) \<noteq> [] \<and>
   messages (send_start \<lparr>messages = [], input = utf16 '' Hello '', loading = False\<rparr>) =
     [\<lparr>msg_type = USER, msg_text = utf16 '' Hello ''\<rparr>] \<and>
   (\<exists>rest. messages (final (snd (handleSend (backend \<lparr>status = 200, body = Some (stream_of [ascii ''Hi''])\<rparr>)
        \<lparr>messages = [], input = utf16 '' Hello '', loading = False\<rparr>))) =
      \<lparr>msg_type = USER, msg_text = utf16 '' Hello ''\<rparr> # rest \<and> length rest \<le> 1 \<and>
      (\<forall>m \<in> set rest. msg_type m = SYSTEM))"
proof -
  let ?s = "\<lparr>messages = [], input = utf16 '' Hello '', loading = False\<rparr>"
  let ?p = "backend \<lparr>status = 200, body = Some (stream_of [ascii ''Hi''])\<rparr>"
  have a: "trim (input ?s) \<noteq> []"
    by (simp add: trim_def utf16_def isWhiteSpace_def)
  have b: "\<not> loading ?s" by simp
  have c: "messages (send_start ?s) = [\<lparr>msg_type = USER, msg_text = utf16 '' Hello ''\<rparr>]"
    by (simp add: send_start_def setMessages_def setLoading_def user_update_def)
  from C5_user_message_first [OF a b, of ?p] a show ?thesis
    unfolding c by simp
qed

subsection \<open>The end of an exchange\<close>

text \<open>
  C6. For a send with a non-blank input: whenever the handler finishes, the loading flag is
  false and the input buffer is empty; and it does finish when the response has a status
  other than 200 or no body, and when the body's stream delivers its chunks and ends.
\<close>

theorem C6_exchange_resets:
  assumes "trim (input s) \<noteq> []"
  shows "(\<forall>s'. snd (handleSend p s) = Finished s' \<longrightarrow> \<not> loading s' \<and> input s' = []) \<and>
         (\<forall>res chunks.
            fetch p (chat_request p (input s)) = Fulfils res \<and>
            (status res \<noteq> 200 \<or> body res = None \<or> body res = Some (stream_of chunks)) \<longrightarrow>
            (\<exists>s'. snd (handleSend p s) = Finished s'))"
proof -
  have A: "\<not> loading s' \<and> input s' = []" if "snd (handleSend p s) = Finished s'" for s'
    using that assms
    by (auto simp: handleSend_def split: awaited.splits dest: finish_Finished)
  have B: "\<exists>s'. snd (handleSend p s) = Finished s'"
    if h: "fetch p (chat_request p (input s)) = Fulfils res \<and>
      (status res \<noteq> 200 \<or> body res = None \<or> body res = Some (stream_of chunks))"
    for res chunks
  proof -
    from h have "\<exists>s1. handle_response p res (send_start s) = Finished s1"
      by (auto simp: handle_response_def read_loop_stream_of split: option.splits)
    with assms h show ?thesis
      by (auto simp: handleSend_def)
  qed
  from A B show ?thesis by blast
qed

theorem C6_exchange_resets_witness:
  "trim (input hello) \<noteq> [] \<and>
   (\<exists>s'. snd (handleSend (backend \<lparr>status = 200, body = Some (stream_of [ascii ''Hi''])\<rparr>) hello) = Finished s' \<and>
      \<not> loading s' \<and> input s' = []) \<and>
   (\<exists>s'. snd (handleSend (backend \<lparr>status = 404, body = None\<rparr>) hello) = Finished s' \<and>
      \<not> loading s' \<and> input s' = [])"
proof -
  let ?ok = "\<lparr>status = 200, body = Some (stream_of [ascii ''Hi''])\<rparr>"
  let ?ko = "\<lparr>status = 404, body = None :: read_result awaited list option\<rparr>"
  have a: "trim (input hello) \<noteq> []"
    by (simp add: hello_def trim_def utf16_def isWhiteSpace_def)
  have ok: "fetch (backend ?ok) (chat_request (backend ?ok) (input hello)) = Fulfils ?ok \<and>
      (status ?ok \<noteq> 200 \<or> body ?ok = None \<or> body ?ok = Some (stream_of [ascii ''Hi'']))"
    by (simp add: backend_def)
  have ko: "fetch (backend ?ko) (chat_request (backend ?ko) (input hello)) = Fulfils ?ko \<and>
      (status ?ko \<noteq> 200 \<or> body ?ko = None \<or> body ?ko = Some (stream_of []))"
    by (simp add: backend_def)
  from C6_exchange_resets [OF a, of "backend ?ok"] ok
  have 1: "\<exists>s'. snd (handleSend (backend ?ok) hello) = Finished s' \<and> \<not> loading s' \<and> input s' = []"
    by blast
  from C6_exchange_resets [OF a, of "backend ?ko"] ko
  have 2: "\<exists>s'. snd (handleSend (backend ?ko) hello) = Finished s' \<and> \<not> loading s' \<and> input s' = []"
    by blast
  from a 1 2 show ?thesis by blast
qed

subsection \<open>A stream without chunks\<close>

text \<open>
  C10, as the code has it. A send with a non-blank input that is answered with status 200
  and a body whose stream ends without having delivered any chunk appends no SYSTEM
  message: the handler finishes with the conversation ending in the user's message, the
  loading flag false and the input buffer empty.
\<close>

theorem C10_no_chunk_no_message:
  assumes "trim (input s) \<noteq> []"
    and "fetch p (chat_request p (input s)) = Fulfils res"
    and "status res = 200"
    and "body res = Some (stream_of [])"
  shows "handleSend p s =
    ([chat_request p (input s)],
     Finished \<lparr>messages = messages s @ [\<lparr>msg_type = USER, msg_text = input s\<rparr>],
               input = [], loading = False\<rparr>)"
  using assms
  by (simp add: handleSend_def handle_response_def read_loop_stream_of send_start_def
      setMessages_def setLoading_def setInput_def user_update_def)

theorem C10_no_chunk_no_message_witness:
  "handleSend (backend \<lparr>status = 200, body = Some (stream_of [])\<rparr>) hello =
    ([\<lparr>url = ''http://backend/chat'', http_method = ''POST'',
       content_type = ''application/json'', prompt = utf16 ''Hello''\<rparr>],
     Finished \<lparr>messages = [\<lparr>msg_type = USER, msg_text = utf16 ''Hello''\<rparr>],
               input = [], loading = False\<rparr>)"
proof -
  let ?res = "\<lparr>status = 200, body = Some (stream_of [])\<rparr>"
  have a: "trim (input hello) \<noteq> []"
    by (simp add: hello_def trim_def utf16_def isWhiteSpace_def)
  have b: "fetch (backend ?res) (chat_request (backend ?res) (input hello)) = Fulfils ?res"
    by (simp add: backend_def)
  have c: "status ?res = 200" by simp
  have d: "body ?res = Some (stream_of [])" by simp
  show ?thesis
    using C10_no_chunk_no_message [OF a b c d]
    by (simp add: backend_def hello_def chat_request_def)
qed

text \<open>
  The test of line 57 is on the presence of a chunk, not on its length: a stream that
  delivers one chunk of length zero, and so no non-empty chunk, does add a SYSTEM message,
  with the empty text.
\<close>

theorem C10_empty_chunk_counterexample:
  "handleSend (backend \<lparr>status = 200, body = Some (stream_of [[]])\<rparr>) hello =
    ([\<lparr>url = ''http://backend/chat'', http_method = ''POST'',
       content_type = ''application/json'', prompt = utf16 ''Hello''\<rparr>],
     Finished \<lparr>messages = [\<lparr>msg_type = USER, msg_text = utf16 ''Hello''\<rparr>,
                            \<lparr>msg_type = SYSTEM, msg_text = []\<rparr>],
               input = [], loading = False\<rparr>)"
  by (simp add: handleSend_def handle_response_def send_start_def chat_request_def
      setMessages_def setInput_def setLoading_def user_update_def stream_update_def
      stream_of_def trim_def isWhiteSpace_def utf16_def backend_def hello_def)

subsection \<open>Sending while loading\<close>

lemma read_loop_Stuck_loading:
  "read_loop dec rs resp s = Stuck s' \<Longrightarrow> loading s' = loading s"
  by (induction dec rs resp s rule: read_loop.induct)
     (auto simp: setMessages_def split: option.splits if_splits)

lemma handleSend_Stuck_loading:
  assumes "snd (handleSend p s) = Stuck s'" and "trim (input s) \<noteq> []"
  shows "loading s'"
proof (cases "fetch p (chat_request p (input s))")
  case (Fulfils res)
  with assms have f: "finish (handle_response p res (send_start s)) = Stuck s'"
    by (simp add: handleSend_def)
  then have "handle_response p res (send_start s) = Stuck s'"
    by (cases "handle_response p res (send_start s)") simp_all
  then obtain rs where "read_loop (decode p) rs [] (send_start s) = Stuck s'"
    by (auto simp: handle_response_def split: option.splits if_splits)
  from read_loop_Stuck_loading [OF this] show ?thesis
    by (simp add: send_start_def setMessages_def setLoading_def)
next
  case Rejects
  with assms show ?thesis by (simp add: handleSend_def)
next
  case Pends
  with assms show ?thesis
    by (auto simp: handleSend_def send_start_def setMessages_def setLoading_def)
qed

lemma disabled_flags_message_block: "disabled_flags n (message_block i m) = []"
  by (simp add: message_block_def)

lemma disabled_flags_chat_area: "disabled_flags n (chat_area msgs) = []"
  by (auto simp: chat_area_def welcome_panel_def disabled_flags_message_block split: prod.splits)

lemma disabled_Input: "disabled_flags ''Input'' (App s) = [loading s]"
  by (simp add: App_def header_def footer_def controls_def disabled_flags_chat_area)

lemma disabled_Button:
  "disabled_flags ''Button'' (App s) = [loading s \<or> trim (input s) = []]"
  by (simp add: App_def header_def footer_def controls_def disabled_flags_chat_area)

text \<open>
  With controls that deliver no event while disabled, nothing the user does in a state
  with the loading flag set changes the state or issues a request.
\<close>

lemma deliver_while_loading: "loading s \<Longrightarrow> deliver p ev s = ([], Finished s)"
  by (simp add: disabled_Input disabled_Button deliver_def is_disabled_def
      split: ui_event.splits)

lemma handleSend_blank: "trim (input s) = [] \<Longrightarrow> handleSend p s = ([], Finished s)"
  by (simp add: handleSend_def)

lemma deliver_Stuck_loading:
  assumes "snd (deliver p ev s) = Stuck s'"
  shows "loading s'"
proof -
  from assms have h: "snd (handleSend p s) = Stuck s'"
    by (auto simp: deliver_def onKeyDown_def onClick_def split: ui_event.splits if_splits)
  then have "trim (input s) \<noteq> []"
    by (auto simp: handleSend_blank)
  with h show ?thesis by (rule handleSend_Stuck_loading)
qed

text \<open>
  C3. The handler is called from two places only, the key handler of the text field and
  the click handler of the send button, and both controls are rendered disabled while the
  loading flag is set. In every such state a send is a no-op whatever the input holds:
  the state, and so the conversation, is unchanged and no request is issued. And while a
  send started through the controls waits for the backend or for the next read, the
  loading flag is set, so that no second request can be started.
\<close>

theorem C3_send_while_loading_noop:
  "(loading s \<longrightarrow>
      disabled_flags ''Input'' (App s) = [True] \<and>
      disabled_flags ''Button'' (App s) = [True] \<and>
      deliver p ev s = ([], Finished s)) \<and>
   (snd (deliver p ev s) = Stuck s' \<longrightarrow>
      loading s' \<and> deliver p' ev' s' = ([], Finished s'))"
  using deliver_Stuck_loading [of p ev s s']
  by (auto simp: disabled_Input disabled_Button deliver_while_loading)

theorem C3_send_while_loading_noop_witness:
  "loading \<lparr>messages = [\<lparr>msg_type = USER, msg_text = utf16 ''Hello''\<rparr>,
                         \<lparr>msg_type = SYSTEM, msg_text = utf16 ''Hi''\<rparr>],
            input = utf16 ''Hello'', loading = True\<rparr> \<and>
   deliver (backend \<lparr>status = 200, body = Some (stream_of [ascii ''Hi''])\<rparr>) (Press_key ''Enter'')
     \<lparr>messages = [\<lparr>msg_type = USER, msg_text = utf16 ''Hello''\<rparr>,
                   \<lparr>msg_type = SYSTEM, msg_text = utf16 ''Hi''\<rparr>],
      input = utf16 ''Hello'', loading = True\<rparr> =
     ([], Finished \<lparr>messages = [\<lparr>msg_type = USER, msg_text = utf16 ''Hello''\<rparr>,
                                 \<lparr>msg_type = SYSTEM, msg_text = utf16 ''Hi''\<rparr>],
                    input = utf16 ''Hello'', loading = True\<rparr>) \<and>
   snd (deliver
         (backend \<lparr>status = 200,
                   body = Some [Fulfils \<lparr>read_value = Some (ascii ''Hi''), read_done = False\<rparr>]\<rparr>)
         Click_button hello) =
     Stuck \<lparr>messages = [\<lparr>msg_type = USER, msg_text = utf16 ''Hello''\<rparr>,
                         \<lparr>msg_type = SYSTEM, msg_text = utf16 ''Hi''\<rparr>],
            input = utf16 ''Hello'', loading = True\<rparr> \<and>
   deliver (backend \<lparr>status = 200, body = Some (stream_of [ascii ''Hi''])\<rparr>) Click_button
     \<lparr>messages = [\<lparr>msg_type = USER, msg_text = utf16 ''Hello''\<rparr>,
                   \<lparr>msg_type = SYSTEM, msg_text = utf16 ''Hi''\<rparr>],
      input = utf16 ''Hello'', loading = True\<rparr> =
     ([], Finished \<lparr>messages = [\<lparr>msg_type = USER, msg_text = utf16 ''Hello''\<rparr>,
                                 \<lparr>msg_type = SYSTEM, msg_text = utf16 ''Hi''\<rparr>],
                    input = utf16 ''Hello'', loading = True\<rparr>)"
proof -
  let ?p = "backend \<lparr>status = 200, body = Some (stream_of [ascii ''Hi''])\<rparr>"
  let ?q = "backend \<lparr>status = 200,
                     body = Some [Fulfils \<lparr>read_value = Some (ascii ''Hi''), read_done = False\<rparr>]\<rparr>"
  let ?s' = "\<lparr>messages = [\<lparr>msg_type = USER, msg_text = utf16 ''Hello''\<rparr>,
                          \<lparr>msg_type = SYSTEM, msg_text = utf16 ''Hi''\<rparr>],
             input = utf16 ''Hello'', loading = True\<rparr>"
  have a: "loading ?s'" by simp
  have hs: "snd (handleSend ?q hello) = Stuck ?s'"
    by (simp add: handleSend_def handle_response_def send_start_def chat_request_def
      setMessages_def setInput_def setLoading_def user_update_def stream_update_def
      trim_def isWhiteSpace_def utf16_def ascii_def backend_def hello_def)
  have en: "\<not> is_disabled ''Button'' hello"
    by (simp add: is_disabled_def disabled_Button hello_def trim_def isWhiteSpace_def utf16_def)
  from hs en have c: "snd (deliver ?q Click_button hello) = Stuck ?s'"
    by (simp add: deliver_def onClick_def)
  from C3_send_while_loading_noop [of ?s' ?p "Press_key ''Enter''"] a
  have 1: "deliver ?p (Press_key ''Enter'') ?s' = ([], Finished ?s')"
    by blast
  from C3_send_while_loading_noop [of hello ?q Click_button ?s' ?p Click_button] c
  have 2: "deliver ?p Click_button ?s' = ([], Finished ?s')"
    by blast
  from a 1 c 2 show ?thesis by blast
qed

subsection \<open>The disabled flags of the controls\<close>

text \<open>
  C9, as the code has it. In every state the send button is disabled exactly when the
  loading flag is set or the trimmed input is empty; the text field is disabled exactly
  when the loading flag is set.
\<close>

theorem C9_disabled_flags:
  "disabled_flags ''Button'' (App s) = [loading s \<or> trim (input s) = []] \<and>
   disabled_flags ''Input'' (App s) = [loading s]"
  by (simp add: disabled_Input disabled_Button)

theorem C9_disabled_flags_witness:
  "disabled_flags ''Button'' (App hello) = [False] \<and>
   disabled_flags ''Input'' (App hello) = [False]"
proof -
  have "trim (input hello) \<noteq> []" "\<not> loading hello"
    by (simp_all add: hello_def trim_def utf16_def isWhiteSpace_def)
  with C9_disabled_flags [of hello] show ?thesis by simp
qed

text \<open>
  In the initial state the trimmed input is empty and the text field is enabled (nothing
  could be typed otherwise); only the button is disabled.
\<close>

theorem C9_empty_field_enabled_counterexample:
  "trim (input initial_state) = [] \<and> disabled_flags ''Input'' (App initial_state) = [False] \<and>
   disabled_flags ''Button'' (App initial_state) = [True]"
  by (simp add: disabled_Input disabled_Button initial_state_def trim_def)

subsection \<open>Rendering the conversation\<close>

lemma markdown_sources_blocks:
  "concat (map (markdown_sources \<circ> (\<lambda>(i, msg). message_block i msg)) (enumerate n msgs)) =
     map msg_text msgs"
  by (induction msgs arbitrary: n) (simp_all add: message_block_def)

lemma markdown_holders_blocks:
  "concat (map (markdown_holders \<circ> (\<lambda>(i, msg). message_block i msg)) (enumerate n msgs)) =
     map (\<lambda>msg. [ClassName ''whitespace-pre-wrap'']) msgs"
  by (induction msgs arbitrary: n) (simp_all add: message_block_def)

lemma literal_texts_message_block: "literal_texts (message_block i msg) = []"
  by (simp add: message_block_def)

lemma is_markdown_message_block: "\<not> is_markdown (message_block i msg)"
  by (simp add: message_block_def)

lemma markdown_sources_chat_area:
  "msgs \<noteq> [] \<Longrightarrow> markdown_sources (chat_area msgs) = map msg_text msgs"
  by (simp add: chat_area_def markdown_sources_blocks)

lemma literal_texts_chat_area: "msgs \<noteq> [] \<Longrightarrow> literal_texts (chat_area msgs) = []"
  by (auto simp: chat_area_def literal_texts_message_block split: prod.splits)

lemma markdown_holders_chat_area:
  "msgs \<noteq> [] \<Longrightarrow>
     markdown_holders (chat_area msgs) = map (\<lambda>msg. [ClassName ''whitespace-pre-wrap'']) msgs"
  by (auto simp: chat_area_def markdown_holders_blocks is_markdown_message_block
      filter_empty_conv split: prod.splits)

text \<open>
  C8, as the code has it. For every non-empty conversation the chat area hands the text of
  each message, USER and SYSTEM alike and in order, to the markdown component, each inside
  an element of class \<^verbatim>\<open>whitespace-pre-wrap\<close>; it renders no literal text.
\<close>

theorem C8_all_text_through_markdown:
  assumes "msgs \<noteq> []"
  shows "markdown_sources (chat_area msgs) = map msg_text msgs \<and>
         literal_texts (chat_area msgs) = [] \<and>
         markdown_holders (chat_area msgs) = map (\<lambda>msg. [ClassName ''whitespace-pre-wrap'']) msgs"
  using assms
  by (simp add: markdown_sources_chat_area literal_texts_chat_area markdown_holders_chat_area)

theorem C8_all_text_through_markdown_witness:
  "markdown_sources (chat_area [\<lparr>msg_type = USER, msg_text = utf16 ''Hello''\<rparr>,
                                \<lparr>msg_type = SYSTEM, msg_text = utf16 ''Hi there!''\<rparr>]) =
     [utf16 ''Hello'', utf16 ''Hi there!''] \<and>
   literal_texts (chat_area [\<lparr>msg_type = USER, msg_text = utf16 ''Hello''\<rparr>,
                             \<lparr>msg_type = SYSTEM, msg_text = utf16 ''Hi there!''\<rparr>]) = [] \<and>
   markdown_holders (chat_area [\<lparr>msg_type = USER, msg_text = utf16 ''Hello''\<rparr>,
                                \<lparr>msg_type = SYSTEM, msg_text = utf16 ''Hi there!''\<rparr>]) =
     [[ClassName ''whitespace-pre-wrap''], [ClassName ''whitespace-pre-wrap'']]"
proof -
  let ?msgs = "[\<lparr>msg_type = USER, msg_text = utf16 ''Hello''\<rparr>,
                \<lparr>msg_type = SYSTEM, msg_text = utf16 ''Hi there!''\<rparr>]"
  have a: "?msgs \<noteq> []" by simp
  from C8_all_text_through_markdown [OF a] show ?thesis by simp
qed

text \<open>The text of a USER message is markdown source too, and no literal text.\<close>

theorem C8_user_text_markdown_counterexample:
  "markdown_sources (chat_area [\<lparr>msg_type = USER, msg_text = utf16 ''# a  b''\<rparr>]) =
     [utf16 ''# a  b''] \<and>
   literal_texts (chat_area [\<lparr>msg_type = USER, msg_text = utf16 ''# a  b''\<rparr>]) = []"
  by (simp add: chat_area_def message_block_def)

subsection \<open>How the conversation changes\<close>

lemma stream_update_cases:
  "stream_update r msgs = msgs @ [\<lparr>msg_type = SYSTEM, msg_text = r\<rparr>] \<or>
   msgs \<noteq> [] \<and> msg_type (last msgs) = SYSTEM \<and>
     stream_update r msgs = butlast msgs @ [\<lparr>msg_type = SYSTEM, msg_text = r\<rparr>]"
  by (simp add: stream_update_def)

lemma stream_update_prefix: "prefix (butlast msgs) (stream_update r msgs)"
  by (cases msgs rule: rev_cases) (simp_all add: stream_update_def)

lemma handleSend_prefix: "prefix (messages s) (messages (final (snd (handleSend p s))))"
proof (cases "trim (input s) = []")
  case True
  then show ?thesis by (simp add: handleSend_def)
next
  case False
  from handleSend_adds [OF False, of p] show ?thesis
    by (auto simp: messages_send_start)
qed

text \<open>
  C7. Each of the three updaters that the handler passes to \<^verbatim>\<open>setMessages\<close> appends one
  message at the end; the one of the read loop instead replaces the last message, and does
  so only when that message is a SYSTEM message. All messages but the last are kept. Over
  a whole call of the handler, however it ends (a stream cut short gives the state after
  the reads made so far), the conversation it started from is kept as it was and at most
  two messages follow it: the only message ever replaced is the SYSTEM message of the
  exchange under way.
\<close>

theorem C7_append_or_replace_last:
  "user_update t msgs = msgs @ [\<lparr>msg_type = USER, msg_text = t\<rparr>] \<and>
   failure_update msgs = msgs @ [\<lparr>msg_type = SYSTEM, msg_text = failure_text\<rparr>] \<and>
   (stream_update r msgs = msgs @ [\<lparr>msg_type = SYSTEM, msg_text = r\<rparr>] \<or>
    msgs \<noteq> [] \<and> msg_type (last msgs) = SYSTEM \<and>
      stream_update r msgs = butlast msgs @ [\<lparr>msg_type = SYSTEM, msg_text = r\<rparr>]) \<and>
   prefix (butlast msgs) (stream_update r msgs) \<and>
   prefix (messages s) (messages (final (snd (handleSend p s)))) \<and>
   length (messages (final (snd (handleSend p s)))) \<le> length (messages s) + 2"
proof -
  have "length (messages (final (snd (handleSend p s)))) \<le> length (messages s) + 2"
  proof (cases "trim (input s) = []")
    case True
    then show ?thesis by (simp add: handleSend_def)
  next
    case False
    from handleSend_adds [OF False, of p] show ?thesis
      by (auto simp: messages_send_start)
  qed
  with stream_update_cases [of r msgs] stream_update_prefix [of msgs r] handleSend_prefix [of s p]
  show ?thesis
    by (simp add: user_update_def failure_update_def)
qed


theorem C7_append_or_replace_last_witness:
  "stream_update (utf16 ''Hi there'')
     [\<lparr>msg_type = USER, msg_text = utf16 ''Hello''\<rparr>, \<lparr>msg_type = SYSTEM, msg_text = utf16 ''Hi''\<rparr>] =
     [\<lparr>msg_type = USER, msg_text = utf16 ''Hello''\<rparr>,
      \<lparr>msg_type = SYSTEM, msg_text = utf16 ''Hi there''\<rparr>] \<and>
   prefix [\<lparr>msg_type = USER, msg_text = utf16 ''Hello''\<rparr>]
     (stream_update (utf16 ''Hi there'')
        [\<lparr>msg_type = USER, msg_text = utf16 ''Hello''\<rparr>,
         \<lparr>msg_type = SYSTEM, msg_text = utf16 ''Hi''\<rparr>]) \<and>
   prefix [\<lparr>msg_type = USER, msg_text = utf16 ''Hello''\<rparr>, \<lparr>msg_type = SYSTEM, msg_text = utf16 ''Hi''\<rparr>]
     (messages (final (snd (handleSend
        (backend \<lparr>status = 200, body = Some (stream_of [ascii ''Fine'', ascii ''!''])\<rparr>)
        \<lparr>messages = [\<lparr>msg_type = USER, msg_text = utf16 ''Hello''\<rparr>,
                      \<lparr>msg_type = SYSTEM, msg_text = utf16 ''Hi''\<rparr>],
           input = utf16 ''How are you?'', loading = False\<rparr>))))"
proof -
  let ?msgs = "[\<lparr>msg_type = USER, msg_text = utf16 ''Hello''\<rparr>,
                \<lparr>msg_type = SYSTEM, msg_text = utf16 ''Hi''\<rparr>]"
  let ?s = "\<lparr>messages = ?msgs, input = utf16 ''How are you?'', loading = False\<rparr>"
  let ?p = "backend \<lparr>status = 200, body = Some (stream_of [ascii ''Fine'', ascii ''!''])\<rparr>"
  have ev: "stream_update (utf16 ''Hi there'') ?msgs =
      [\<lparr>msg_type = USER, msg_text = utf16 ''Hello''\<rparr>,
       \<lparr>msg_type = SYSTEM, msg_text = utf16 ''Hi there''\<rparr>]"
    by (simp add: stream_update_def)
  from C7_append_or_replace_last [of "utf16 ''Hello''" ?msgs "utf16 ''Hi there''" ?s ?p] ev
  show ?thesis by simp
qed

end
